theory Spec2Isabelle
  imports Complex_Main "HOL-Library.Multiset" "HOL-Library.List_Lexorder" "HOL-Library.Char_ord"
begin

section \<open>Data model of \<^verbatim>\<open>schedulizer.py\<close>\<close>

text \<open>
  The embedding starts from the data frame \<^verbatim>\<open>team_games\<close> as it is after the
  \<^verbatim>\<open>game_datetime\<close> column has been created (line 113): a row carries the parsed start
  instant instead of the two text columns. A \<^verbatim>\<open>datetime\<close> is an integer number of seconds
  from a fixed origin, so that the difference of two of them is what
  \<^verbatim>\<open>timedelta.total_seconds()\<close> returns. Python floats are modelled by exact reals.
\<close>

type_synonym datetime = int

type_synonym coords = "real \<times> real"

datatype error = ValueError string | KeyError string

text \<open>One row of the season table: the columns the function reads.\<close>

record season_row =
  col_game_datetime :: datetime
  Visitor_Neutral :: string
  Home_Neutral :: string
  Arena :: string

text \<open>The dictionary appended to \<^verbatim>\<open>game_list\<close> for one game; \<open>None\<close> is Python's \<^verbatim>\<open>None\<close>.\<close>

record game_dict =
  team :: string
  gameindex :: nat
  game_datetime :: datetime
  previous_game_datetime :: "datetime option"
  opponent :: string
  location :: string
  where_played :: string
  previous_where_played :: "string option"
  travel_distance :: "real option"
  travel_hours :: "real option"
  game_mile_hours_burden :: "real option"

text \<open>
  A cell of the distance matrix read from the CSV file: a number, or text on which
  \<^verbatim>\<open>float()\<close> raises \<^verbatim>\<open>ValueError\<close>. The matrix itself is \<^verbatim>\<open>distance_df.loc[row, col]\<close>,
  with \<open>None\<close> where a label is missing and \<^verbatim>\<open>.loc\<close> raises \<^verbatim>\<open>KeyError\<close>.
\<close>

datatype cell = Num real | NotNum

type_synonym distance_matrix = "string \<Rightarrow> string \<Rightarrow> cell option"

section \<open>The functions of \<^verbatim>\<open>schedulizer.py\<close>\<close>

definition INTERNATIONAL_ARENAS :: "string \<rightharpoonup> coords" where
  "INTERNATIONAL_ARENAS =
     [''Mexico City Arena'' \<mapsto> (19496309 / 1000000, - (99175429 / 1000000)),
      ''AccorHotels Arena'' \<mapsto> (488386 / 10000, 23785 / 10000)]"

definition normalize_team_name_for_coords :: "string \<Rightarrow> string" where
  "normalize_team_name_for_coords name =
     (if name = ''Sacramento Kings'' then ''Sacremento Kings'' else name)"

definition normalize_team_name :: "string \<Rightarrow> string" where
  "normalize_team_name name =
     (if name = ''Sacramento Kings'' then ''Sacremento Kings'' else name)"

text \<open>The column \<^verbatim>\<open>is_international\<close> of line 73.\<close>

definition is_international :: "season_row \<Rightarrow> bool" where
  "is_international row = (INTERNATIONAL_ARENAS (Arena row) \<noteq> None)"

definition get_coordinates ::
  "(string \<rightharpoonup> coords) \<Rightarrow> string \<Rightarrow> string \<Rightarrow> bool \<Rightarrow> error + coords" where
  "get_coordinates team_coords team_name arena_name is_intl =
     (if is_intl then
        (case INTERNATIONAL_ARENAS arena_name of
           Some c \<Rightarrow> Inr c
         | None \<Rightarrow> Inl (KeyError arena_name))
      else
        (let normalized_name = normalize_team_name_for_coords team_name in
         case team_coords normalized_name of
           Some c \<Rightarrow> Inr c
         | None \<Rightarrow> Inl (ValueError (''Could not find coordinates for team: '' @ team_name))))"

text \<open>
  Lines 201 to 211: the lookup in the distance matrix, with both exceptions caught.
\<close>

definition matrix_distance :: "distance_matrix \<Rightarrow> string \<Rightarrow> string \<Rightarrow> real" where
  "matrix_distance distance_df prev_where_played wp =
     (let prev_where_played_normalized = normalize_team_name prev_where_played;
          where_played_normalized = normalize_team_name wp
      in case distance_df prev_where_played_normalized where_played_normalized of
           None \<Rightarrow> 0
         | Some NotNum \<Rightarrow> 0
         | Some (Num v) \<Rightarrow> (if prev_where_played = wp then 0 else v))"

text \<open>
  Lines 166 to 211: the travel distance of one leg. \<open>geodesic\<close> is the library call
  \<^verbatim>\<open>geodesic(prev_coords, curr_coords).miles\<close>, a parameter of the model; it may raise
  (a latitude out of range).
\<close>

definition leg_distance ::
  "(coords \<Rightarrow> coords \<Rightarrow> error + real) \<Rightarrow> distance_matrix \<Rightarrow> (string \<rightharpoonup> coords) \<Rightarrow>
   season_row \<Rightarrow> season_row \<Rightarrow> error + real" where
  "leg_distance geodesic distance_df team_coords prev_row row =
     (let prev_where_played = Home_Neutral prev_row;
          wp = Home_Neutral row;
          prev_is_international = is_international prev_row;
          curr_is_international = is_international row
      in if prev_is_international \<or> curr_is_international then
           (case get_coordinates team_coords prev_where_played (Arena prev_row)
                   prev_is_international of
              Inl e \<Rightarrow> Inl e
            | Inr prev_coords \<Rightarrow>
                (case get_coordinates team_coords wp (Arena row) curr_is_international of
                   Inl e \<Rightarrow> Inl e
                 | Inr curr_coords \<Rightarrow> geodesic prev_coords curr_coords))
         else Inr (matrix_distance distance_df prev_where_played wp))"

text \<open>Lines 213 to 217: the guarded division.\<close>

definition burden_of :: "real \<Rightarrow> real \<Rightarrow> real option" where
  "burden_of td th = (if th > 0 then Some (td / th) else None)"

text \<open>
  The body of the loop of line 127 at index \<open>idx\<close> of \<^verbatim>\<open>team_games\<close>: the dictionary of
  that game, or the exception that leaves the loop.
\<close>

definition loop_body ::
  "(coords \<Rightarrow> coords \<Rightarrow> error + real) \<Rightarrow> distance_matrix \<Rightarrow> (string \<rightharpoonup> coords) \<Rightarrow>
   string \<Rightarrow> season_row list \<Rightarrow> nat \<Rightarrow> error + game_dict" where
  "loop_body geodesic distance_df team_coords team_name team_games idx =
     (let row = team_games ! idx;
          is_home = (Home_Neutral row = team_name);
          loc = (if is_home then ''home'' else ''away'');
          opp = (if \<not> is_home then Home_Neutral row else Visitor_Neutral row);
          wp = Home_Neutral row;
          game_dt = col_game_datetime row
      in if idx = 0 then
           Inr \<lparr>team = team_name, gameindex = idx + 1, game_datetime = game_dt,
                previous_game_datetime = None, opponent = opp, location = loc,
                where_played = wp, previous_where_played = None,
                travel_distance = None, travel_hours = None,
                game_mile_hours_burden = None\<rparr>
         else
           (let prev_row = team_games ! (idx - 1);
                prev_game_dt = col_game_datetime prev_row;
                prev_where_played = Home_Neutral prev_row;
                th = real_of_int (game_dt - prev_game_dt) / 3600
            in case leg_distance geodesic distance_df team_coords prev_row row of
                 Inl e \<Rightarrow> Inl e
               | Inr td \<Rightarrow>
                   Inr \<lparr>team = team_name, gameindex = idx + 1, game_datetime = game_dt,
                        previous_game_datetime = Some prev_game_dt, opponent = opp,
                        location = loc, where_played = wp,
                        previous_where_played = Some prev_where_played,
                        travel_distance = Some td, travel_hours = Some th,
                        game_mile_hours_burden = burden_of td th\<rparr>))"

text \<open>
  The loop: the indices in order, each dictionary appended to \<^verbatim>\<open>game_list\<close>, the first
  exception ending it.
\<close>

fun for_loop :: "(nat \<Rightarrow> error + game_dict) \<Rightarrow> nat list \<Rightarrow> game_dict list \<Rightarrow>
    error + game_dict list" where
  "for_loop body [] game_list = Inr game_list"
| "for_loop body (idx # rest) game_list =
     (case body idx of
        Inl e \<Rightarrow> Inl e
      | Inr d \<Rightarrow> for_loop body rest (game_list @ [d]))"

text \<open>Lines 67 to 70: the games of the team, in the order of the season table.\<close>

definition filter_games :: "season_row list \<Rightarrow> string \<Rightarrow> season_row list" where
  "filter_games season_df team_name =
     filter (\<lambda>r. Visitor_Neutral r = team_name \<or> Home_Neutral r = team_name) season_df"

text \<open>
  Line 116: \<^verbatim>\<open>sort_values('game_datetime')\<close> is the library's sort with its default
  algorithm, a parameter \<open>sort_values\<close> of the model.
\<close>

definition team_schedule ::
  "(season_row list \<Rightarrow> season_row list) \<Rightarrow> season_row list \<Rightarrow> string \<Rightarrow> season_row list" where
  "team_schedule sort_values season_df team_name =
     sort_values (filter_games season_df team_name)"

text \<open>What the library promises of that sort: the same rows, ascending by the key.\<close>

definition sort_values_ok :: "(season_row list \<Rightarrow> season_row list) \<Rightarrow> bool" where
  "sort_values_ok sort_values =
     (\<forall>xs. mset (sort_values xs) = mset xs \<and> sorted (map col_game_datetime (sort_values xs)))"

text \<open>
  The function itself. The warning printed for a team with fewer than 82 games has no
  effect on the result and is left out.
\<close>

definition schedulizer ::
  "(season_row list \<Rightarrow> season_row list) \<Rightarrow> (coords \<Rightarrow> coords \<Rightarrow> error + real) \<Rightarrow>
   distance_matrix \<Rightarrow> (string \<rightharpoonup> coords) \<Rightarrow> season_row list \<Rightarrow> string \<Rightarrow>
   error + game_dict list" where
  "schedulizer sort_values geodesic distance_df team_coords season_df team_name =
     (let team_games = team_schedule sort_values season_df team_name
      in if length team_games = 0 then
           Inl (ValueError (''No games found for '' @ team_name))
         else
           for_loop (loop_body geodesic distance_df team_coords team_name team_games)
             [0 ..< length team_games] [])"

section \<open>\<^verbatim>\<open>create_schedule_mapping\<close> of \<^verbatim>\<open>metrics.py\<close>\<close>




section \<open>Example data\<close>

text \<open>
  Concrete inputs for the closed theorems below. The example sort is insertion sort on
  the key. The example geodesic stands in for the library call: zero between equal
  points and one mile between different points, which is all the examples depend on.
\<close>

definition example_sort :: "season_row list \<Rightarrow> season_row list" where
  "example_sort = sort_key col_game_datetime"

definition example_geodesic :: "coords \<Rightarrow> coords \<Rightarrow> error + real" where
  "example_geodesic p q = Inr (if p = q then 0 else 1)"

definition example_matrix :: distance_matrix where
  "example_matrix r c =
     map_of [((''Home A'', ''Home A''), Num (1 / 10000)), ((''Home A'', ''Y''), Num 500),
             ((''Y'', ''Home A''), Num 500), ((''Y'', ''Y''), Num 0)] (r, c)"

text \<open>
  A season table with five games of \<^verbatim>\<open>Home A\<close>, out of order, and one game of other
  teams; the last game is at a team the matrix does not have. The diagonal cell of
  \<^verbatim>\<open>Home A\<close> in the example matrix is not zero.
\<close>

definition home_a_rows :: "season_row list" where
  "home_a_rows =
     [\<lparr>col_game_datetime = 86400, Visitor_Neutral = ''Home A'', Home_Neutral = ''Y'',
       Arena = ''Y Center''\<rparr>,
      \<lparr>col_game_datetime = 90000, Visitor_Neutral = ''X'', Home_Neutral = ''Z'',
       Arena = ''Z Center''\<rparr>,
      \<lparr>col_game_datetime = 0, Visitor_Neutral = ''X'', Home_Neutral = ''Home A'',
       Arena = ''A Center''\<rparr>,
      \<lparr>col_game_datetime = 259200, Visitor_Neutral = ''Z'', Home_Neutral = ''Home A'',
       Arena = ''A Center''\<rparr>,
      \<lparr>col_game_datetime = 345600, Visitor_Neutral = ''X'', Home_Neutral = ''Home A'',
       Arena = ''A Center''\<rparr>,
      \<lparr>col_game_datetime = 432000, Visitor_Neutral = ''Home A'',
       Home_Neutral = ''Seattle SuperSonics'', Arena = ''KeyArena''\<rparr>]"

definition home_a_chain :: "game_dict list" where
  "home_a_chain =
     [\<lparr>team = ''Home A'', gameindex = 1, game_datetime = 0, previous_game_datetime = None,
       opponent = ''X'', location = ''home'', where_played = ''Home A'',
       previous_where_played = None, travel_distance = None, travel_hours = None,
       game_mile_hours_burden = None\<rparr>,
      \<lparr>team = ''Home A'', gameindex = 2, game_datetime = 86400,
       previous_game_datetime = Some 0, opponent = ''Y'', location = ''away'',
       where_played = ''Y'', previous_where_played = Some ''Home A'',
       travel_distance = Some 500, travel_hours = Some 24,
       game_mile_hours_burden = Some (500 / 24)\<rparr>,
      \<lparr>team = ''Home A'', gameindex = 3, game_datetime = 259200,
       previous_game_datetime = Some 86400, opponent = ''Z'', location = ''home'',
       where_played = ''Home A'', previous_where_played = Some ''Y'',
       travel_distance = Some 500, travel_hours = Some 48,
       game_mile_hours_burden = Some (500 / 48)\<rparr>,
      \<lparr>team = ''Home A'', gameindex = 4, game_datetime = 345600,
       previous_game_datetime = Some 259200, opponent = ''X'', location = ''home'',
       where_played = ''Home A'', previous_where_played = Some ''Home A'',
       travel_distance = Some 0, travel_hours = Some 24,
       game_mile_hours_burden = Some 0\<rparr>,
      \<lparr>team = ''Home A'', gameindex = 5, game_datetime = 432000,
       previous_game_datetime = Some 345600, opponent = ''Seattle SuperSonics'',
       location = ''away'', where_played = ''Seattle SuperSonics'',
       previous_where_played = Some ''Home A'', travel_distance = Some 0,
       travel_hours = Some 24, game_mile_hours_burden = Some 0\<rparr>]"

text \<open>
  Two games of one team at the same instant.
\<close>

definition tie_rows :: "season_row list" where
  "tie_rows =
     [\<lparr>col_game_datetime = 0, Visitor_Neutral = ''X'', Home_Neutral = ''Home A'',
       Arena = ''A Center''\<rparr>,
      \<lparr>col_game_datetime = 0, Visitor_Neutral = ''Home A'', Home_Neutral = ''Y'',
       Arena = ''Y Center''\<rparr>]"

definition tie_chain :: "game_dict list" where
  "tie_chain =
     [\<lparr>team = ''Home A'', gameindex = 1, game_datetime = 0, previous_game_datetime = None,
       opponent = ''X'', location = ''home'', where_played = ''Home A'',
       previous_where_played = None, travel_distance = None, travel_hours = None,
       game_mile_hours_burden = None\<rparr>,
      \<lparr>team = ''Home A'', gameindex = 2, game_datetime = 0,
       previous_game_datetime = Some 0, opponent = ''Y'', location = ''away'',
       where_played = ''Y'', previous_where_played = Some ''Home A'',
       travel_distance = Some 500, travel_hours = Some 0,
       game_mile_hours_burden = None\<rparr>]"

text \<open>
  Washington's game in Mexico City (it is the home team of the table) and its next
  game, at its own arena.
\<close>

definition wizards_rows :: "season_row list" where
  "wizards_rows =
     [\<lparr>col_game_datetime = 163800, Visitor_Neutral = ''Miami Heat'',
       Home_Neutral = ''Washington Wizards'', Arena = ''Mexico City Arena''\<rparr>,
      \<lparr>col_game_datetime = 327600, Visitor_Neutral = ''Golden State Warriors'',
       Home_Neutral = ''Washington Wizards'', Arena = ''Capital One Arena''\<rparr>]"

definition wizards_coords :: "string \<rightharpoonup> coords" where
  "wizards_coords = [''Washington Wizards'' \<mapsto> (388981 / 10000, - (770209 / 10000))]"

definition wizards_chain :: "game_dict list" where
  "wizards_chain =
     [\<lparr>team = ''Washington Wizards'', gameindex = 1, game_datetime = 163800,
       previous_game_datetime = None, opponent = ''Miami Heat'', location = ''home'',
       where_played = ''Washington Wizards'', previous_where_played = None,
       travel_distance = None, travel_hours = None, game_mile_hours_burden = None\<rparr>,
      \<lparr>team = ''Washington Wizards'', gameindex = 2, game_datetime = 327600,
       previous_game_datetime = Some 163800, opponent = ''Golden State Warriors'',
       location = ''home'', where_played = ''Washington Wizards'',
       previous_where_played = Some ''Washington Wizards'',
       travel_distance = Some 1, travel_hours = Some (91 / 2),
       game_mile_hours_burden = Some (2 / 91)\<rparr>]"


text \<open>
  Indiana's game at its own arena and its next game, in Paris, with a stadium table
  that has no row for Indiana.
\<close>

definition pacers_rows :: "season_row list" where
  "pacers_rows =
     [\<lparr>col_game_datetime = 0, Visitor_Neutral = ''Philadelphia 76ers'',
       Home_Neutral = ''Indiana Pacers'', Arena = ''Gainbridge Fieldhouse''\<rparr>,
      \<lparr>col_game_datetime = 414000, Visitor_Neutral = ''San Antonio Spurs'',
       Home_Neutral = ''Indiana Pacers'', Arena = ''AccorHotels Arena''\<rparr>]"

definition spurs_coords :: "string \<rightharpoonup> coords" where
  "spurs_coords = [''San Antonio Spurs'' \<mapsto> (29427 / 1000, - (984375 / 10000))]"

section \<open>The loop and its body\<close>

lemma for_loop_Inr:
  "for_loop body idxs acc = Inr recs \<Longrightarrow>
     length recs = length acc + length idxs
     \<and> (\<forall>k < length acc. recs ! k = acc ! k)
     \<and> (\<forall>k < length idxs. body (idxs ! k) = Inr (recs ! (length acc + k)))"
proof (induction idxs arbitrary: acc)
  case Nil
  then show ?case by simp
next
  case (Cons i rest)
  from Cons.prems obtain d where d: "body i = Inr d"
    and rec: "for_loop body rest (acc @ [d]) = Inr recs"
    by (auto split: sum.splits)
  from Cons.IH [OF rec]
  have len: "length recs = length (acc @ [d]) + length rest"
    and pre: "\<forall>k < length (acc @ [d]). recs ! k = (acc @ [d]) ! k"
    and post: "\<forall>k < length rest. body (rest ! k) = Inr (recs ! (length (acc @ [d]) + k))"
    by blast+
  have "\<forall>k < length acc. recs ! k = acc ! k"
    using pre by (auto simp: nth_append)
  moreover have "\<forall>k < length (i # rest). body ((i # rest) ! k) = Inr (recs ! (length acc + k))"
  proof (intro allI impI)
    fix k assume k: "k < length (i # rest)"
    show "body ((i # rest) ! k) = Inr (recs ! (length acc + k))"
    proof (cases k)
      case 0
      have "recs ! length acc = (acc @ [d]) ! length acc" using pre by simp
      then show ?thesis using 0 d by simp
    next
      case (Suc j)
      then show ?thesis using post k by simp
    qed
  qed
  ultimately show ?case using len by simp
qed

lemma for_loop_Inl:
  "for_loop body idxs acc = Inl e \<Longrightarrow> \<exists>i \<in> set idxs. body i = Inl e"
  by (induction idxs arbitrary: acc) (auto split: sum.splits)

lemma for_loop_total:
  "(\<And>i. i \<in> set idxs \<Longrightarrow> \<exists>d. body i = Inr d) \<Longrightarrow> \<exists>recs. for_loop body idxs acc = Inr recs"
proof (induction idxs arbitrary: acc)
  case Nil
  then show ?case by simp
next
  case (Cons i rest)
  then obtain d where "body i = Inr d" by auto
  moreover have "\<exists>recs. for_loop body rest (acc @ [d]) = Inr recs"
    using Cons by simp
  ultimately show ?case by simp
qed

lemma schedulizer_Inr:
  assumes "schedulizer srt g M tc rows t = Inr recs"
  shows "team_schedule srt rows t \<noteq> []"
    and "length recs = length (team_schedule srt rows t)"
    and "i < length recs \<Longrightarrow>
           loop_body g M tc t (team_schedule srt rows t) i = Inr (recs ! i)"
proof -
  let ?s = "team_schedule srt rows t"
  from assms show ne: "?s \<noteq> []"
    by (auto simp: schedulizer_def Let_def split: if_splits)
  with assms have fl: "for_loop (loop_body g M tc t ?s) [0 ..< length ?s] [] = Inr recs"
    by (simp add: schedulizer_def Let_def)
  from for_loop_Inr [OF fl] show len: "length recs = length ?s" by simp
  assume "i < length recs"
  with for_loop_Inr [OF fl] len show "loop_body g M tc t ?s i = Inr (recs ! i)"
    by simp
qed

lemma schedulizer_Inl:
  assumes "schedulizer srt g M tc rows t = Inl e" "team_schedule srt rows t \<noteq> []"
  shows "\<exists>i < length (team_schedule srt rows t).
           loop_body g M tc t (team_schedule srt rows t) i = Inl e"
proof -
  let ?s = "team_schedule srt rows t"
  from assms have "for_loop (loop_body g M tc t ?s) [0 ..< length ?s] [] = Inl e"
    by (simp add: schedulizer_def Let_def)
  from for_loop_Inl [OF this] show ?thesis by auto
qed

lemma schedulizer_total:
  assumes "team_schedule srt rows t \<noteq> []"
    and "\<And>i. i < length (team_schedule srt rows t) \<Longrightarrow>
           \<exists>d. loop_body g M tc t (team_schedule srt rows t) i = Inr d"
  shows "\<exists>recs. schedulizer srt g M tc rows t = Inr recs"
proof -
  let ?s = "team_schedule srt rows t"
  have "\<exists>recs. for_loop (loop_body g M tc t ?s) [0 ..< length ?s] [] = Inr recs"
    by (rule for_loop_total) (use assms(2) in auto)
  with assms(1) show ?thesis by (simp add: schedulizer_def Let_def)
qed

lemma loop_body_first:
  "loop_body g M tc t s 0 =
     Inr \<lparr>team = t, gameindex = 1, game_datetime = col_game_datetime (s ! 0),
          previous_game_datetime = None,
          opponent = (if Home_Neutral (s ! 0) \<noteq> t then Home_Neutral (s ! 0)
                      else Visitor_Neutral (s ! 0)),
          location = (if Home_Neutral (s ! 0) = t then ''home'' else ''away''),
          where_played = Home_Neutral (s ! 0), previous_where_played = None,
          travel_distance = None, travel_hours = None, game_mile_hours_burden = None\<rparr>"
  by (simp add: loop_body_def Let_def)

lemma loop_body_later:
  assumes "0 < i"
  shows "loop_body g M tc t s i =
     (case leg_distance g M tc (s ! (i - 1)) (s ! i) of
        Inl e \<Rightarrow> Inl e
      | Inr td \<Rightarrow>
          Inr \<lparr>team = t, gameindex = i + 1, game_datetime = col_game_datetime (s ! i),
               previous_game_datetime = Some (col_game_datetime (s ! (i - 1))),
               opponent = (if Home_Neutral (s ! i) \<noteq> t then Home_Neutral (s ! i)
                           else Visitor_Neutral (s ! i)),
               location = (if Home_Neutral (s ! i) = t then ''home'' else ''away''),
               where_played = Home_Neutral (s ! i),
               previous_where_played = Some (Home_Neutral (s ! (i - 1))),
               travel_distance = Some td,
               travel_hours =
                 Some (real_of_int (col_game_datetime (s ! i) - col_game_datetime (s ! (i - 1))) / 3600),
               game_mile_hours_burden =
                 burden_of td
                   (real_of_int (col_game_datetime (s ! i) - col_game_datetime (s ! (i - 1))) / 3600)\<rparr>)"
  using assms by (simp add: loop_body_def Let_def split: sum.splits)

lemma loop_body_first_fields:
  assumes "loop_body g M tc t s 0 = Inr r"
  shows "gameindex r = 1" "previous_game_datetime r = None" "previous_where_played r = None"
    "travel_distance r = None" "travel_hours r = None" "game_mile_hours_burden r = None"
  using assms by (auto simp: loop_body_first)

lemma loop_body_later_fields:
  assumes "0 < i" and "loop_body g M tc t s i = Inr r"
  shows "\<exists>td. leg_distance g M tc (s ! (i - 1)) (s ! i) = Inr td
     \<and> travel_distance r = Some td
     \<and> travel_hours r
         = Some (real_of_int (col_game_datetime (s ! i) - col_game_datetime (s ! (i - 1))) / 3600)
     \<and> game_mile_hours_burden r
         = burden_of td
             (real_of_int (col_game_datetime (s ! i) - col_game_datetime (s ! (i - 1))) / 3600)
     \<and> previous_game_datetime r = Some (col_game_datetime (s ! (i - 1)))
     \<and> previous_where_played r = Some (Home_Neutral (s ! (i - 1)))
     \<and> game_datetime r = col_game_datetime (s ! i)
     \<and> where_played r = Home_Neutral (s ! i)"
proof (cases "leg_distance g M tc (s ! (i - 1)) (s ! i)")
  case (Inl e)
  with assms show ?thesis by (simp add: loop_body_later)
next
  case (Inr td)
  with assms show ?thesis by (auto simp: loop_body_later)
qed

lemma loop_body_gameindex:
  "loop_body g M tc t s i = Inr r \<Longrightarrow>
     gameindex r = i + 1 \<and> game_datetime r = col_game_datetime (s ! i)
     \<and> where_played r = Home_Neutral (s ! i) \<and> team r = t"
  by (cases "i = 0") (auto simp: loop_body_first loop_body_later split: sum.splits)

lemma loop_body_fails_iff:
  "(\<exists>d. loop_body g M tc t s i = Inr d) \<longleftrightarrow>
     (i = 0 \<or> (\<exists>td. leg_distance g M tc (s ! (i - 1)) (s ! i) = Inr td))"
  by (cases "i = 0") (auto simp: loop_body_first loop_body_later split: sum.splits)

lemma loop_body_Inl:
  "0 < j \<Longrightarrow> loop_body g M tc t s j = Inl e \<Longrightarrow>
     leg_distance g M tc (s ! (j - 1)) (s ! j) = Inl e"
  by (cases "leg_distance g M tc (s ! (j - 1)) (s ! j)") (auto simp: loop_body_later)

lemma burden_of_None: "burden_of d h = None \<longleftrightarrow> h \<le> 0"
  by (simp add: burden_of_def not_less)

section \<open>The distance of a leg\<close>

lemma matrix_distance_same:
  "matrix_distance M p p = 0"
  by (simp add: matrix_distance_def Let_def split: option.splits cell.splits)


lemma leg_distance_matrix:
  "\<not> is_international p \<Longrightarrow> \<not> is_international r \<Longrightarrow>
     leg_distance g M tc p r = Inr (matrix_distance M (Home_Neutral p) (Home_Neutral r))"
  by (simp add: leg_distance_def Let_def)


lemma is_international_iff:
  "is_international row \<longleftrightarrow>
     Arena row = ''Mexico City Arena'' \<or> Arena row = ''AccorHotels Arena''"
  by (simp add: is_international_def INTERNATIONAL_ARENAS_def del: not_None_eq)

lemma mexico_city_coords:
  "INTERNATIONAL_ARENAS ''Mexico City Arena''
     = Some (19496309 / 1000000, - (99175429 / 1000000))"
  by (simp add: INTERNATIONAL_ARENAS_def)

lemma accorhotels_coords:
  "INTERNATIONAL_ARENAS ''AccorHotels Arena'' = Some (488386 / 10000, 23785 / 10000)"
  by (simp add: INTERNATIONAL_ARENAS_def)

section \<open>The sort and the batch\<close>

text \<open>
  The contract of the sort gives the order of the keys and keeps the rows; it says
  nothing about the order of rows with equal keys, which is left to the library.
\<close>

lemma sorted_schedule:
  "sort_values_ok srt \<Longrightarrow> sorted (map col_game_datetime (team_schedule srt rows t))"
  by (simp add: sort_values_ok_def team_schedule_def)


lemma example_sort_ok: "sort_values_ok example_sort"
  by (simp add: sort_values_ok_def example_sort_def)




section \<open>The examples evaluated\<close>

lemma home_a_schedule:
  "team_schedule example_sort home_a_rows ''Home A'' =
     [home_a_rows ! 2, home_a_rows ! 0, home_a_rows ! 3, home_a_rows ! 4, home_a_rows ! 5]"
  by (simp add: team_schedule_def example_sort_def filter_games_def home_a_rows_def)

lemma home_a_nonempty: "team_schedule example_sort home_a_rows ''Home A'' \<noteq> []"
  by (simp add: home_a_schedule)

lemma home_a_not_international:
  "\<forall>r \<in> set (team_schedule example_sort home_a_rows ''Home A''). \<not> is_international r"
  by (simp add: home_a_schedule)
     (simp add: home_a_rows_def is_international_def INTERNATIONAL_ARENAS_def)

lemma home_a_legs:
  "\<forall>i. 0 < i \<and> i < length (team_schedule example_sort home_a_rows ''Home A'') \<longrightarrow>
     (\<exists>td. leg_distance example_geodesic example_matrix Map.empty
              (team_schedule example_sort home_a_rows ''Home A'' ! (i - 1))
              (team_schedule example_sort home_a_rows ''Home A'' ! i) = Inr td)"
proof (intro allI impI)
  fix i
  let ?s = "team_schedule example_sort home_a_rows ''Home A''"
  assume i: "0 < i \<and> i < length ?s"
  then have "i - 1 < length ?s" by arith
  with i have "?s ! (i - 1) \<in> set ?s" and "?s ! i \<in> set ?s" by (simp_all only: nth_mem)
  then have "\<not> is_international (?s ! (i - 1))" and "\<not> is_international (?s ! i)"
    using home_a_not_international by blast+
  then show "\<exists>td. leg_distance example_geodesic example_matrix Map.empty (?s ! (i - 1)) (?s ! i)
      = Inr td"
    by (simp add: leg_distance_matrix)
qed

lemma home_a_eval:
  "schedulizer example_sort example_geodesic example_matrix Map.empty home_a_rows ''Home A''
     = Inr home_a_chain"
  apply (simp add: schedulizer_def Let_def home_a_schedule)
  apply (simp add: home_a_rows_def home_a_chain_def loop_body_def leg_distance_def
      matrix_distance_def normalize_team_name_def is_international_def
      INTERNATIONAL_ARENAS_def example_matrix_def burden_of_def Let_def)
  done

lemma tie_schedule: "team_schedule example_sort tie_rows ''Home A'' = tie_rows"
  by (simp add: team_schedule_def example_sort_def filter_games_def tie_rows_def)

lemma tie_eval:
  "schedulizer example_sort example_geodesic example_matrix Map.empty tie_rows ''Home A''
     = Inr tie_chain"
  apply (simp add: schedulizer_def Let_def tie_schedule)
  apply (simp add: tie_rows_def tie_chain_def loop_body_def leg_distance_def
      matrix_distance_def normalize_team_name_def is_international_iff
      example_matrix_def burden_of_def Let_def)
  done

lemma wizards_schedule:
  "team_schedule example_sort wizards_rows ''Washington Wizards'' = wizards_rows"
  by (simp add: team_schedule_def example_sort_def filter_games_def wizards_rows_def)

lemma wizards_eval:
  "schedulizer example_sort example_geodesic example_matrix wizards_coords wizards_rows
     ''Washington Wizards'' = Inr wizards_chain"
  apply (simp add: schedulizer_def Let_def wizards_schedule)
  apply (simp add: wizards_rows_def wizards_chain_def loop_body_def leg_distance_def
      get_coordinates_def normalize_team_name_for_coords_def is_international_iff
      mexico_city_coords accorhotels_coords wizards_coords_def example_geodesic_def burden_of_def Let_def)
  done



lemma pacers_schedule:
  "team_schedule example_sort pacers_rows ''Indiana Pacers'' = pacers_rows"
  by (simp add: team_schedule_def example_sort_def filter_games_def pacers_rows_def)

lemma pacers_eval:
  "schedulizer example_sort example_geodesic example_matrix spurs_coords pacers_rows
     ''Indiana Pacers''
     = Inl (ValueError ''Could not find coordinates for team: Indiana Pacers'')"
  apply (simp add: schedulizer_def Let_def pacers_schedule)
  apply (simp add: pacers_rows_def loop_body_def leg_distance_def
      get_coordinates_def normalize_team_name_for_coords_def is_international_iff
      mexico_city_coords accorhotels_coords spurs_coords_def Let_def)
  done

text \<open>
  Whatever the geodesic function is, the leg from the Mexico City game to the next game
  in Washington is its value between the arena's coordinates and Washington's.
\<close>

lemma wizards_leg_any_geodesic:
  "leg_distance g M wizards_coords (wizards_rows ! 0) (wizards_rows ! 1)
     = g (19496309 / 1000000, - (99175429 / 1000000)) (388981 / 10000, - (770209 / 10000))"
  by (simp add: wizards_rows_def leg_distance_def get_coordinates_def is_international_iff
      mexico_city_coords normalize_team_name_for_coords_def wizards_coords_def Let_def)

section \<open>One record per game\<close>

text \<open>
  C1, as amended. The claim as written fails: a leg that touches an international venue
  raises when a home team has no stadium coordinates, and the function then returns
  no list at all (the example that follows the witness). What holds: for every non-empty
  team schedule on which no leg's distance computation raises, \<^verbatim>\<open>schedulizer\<close> returns
  exactly one record per game of the schedule, in the order of the schedule, with
  \<^verbatim>\<open>gameindex\<close> running over 1..N.
\<close>

theorem chain_one_record_per_game:
  assumes "team_schedule srt rows t \<noteq> []"
    and "\<forall>i. 0 < i \<and> i < length (team_schedule srt rows t) \<longrightarrow>
           (\<exists>td. leg_distance g M tc (team_schedule srt rows t ! (i - 1))
                    (team_schedule srt rows t ! i) = Inr td)"
  shows "\<exists>recs. schedulizer srt g M tc rows t = Inr recs
           \<and> length recs = length (team_schedule srt rows t)
           \<and> map gameindex recs = [1 ..< length (team_schedule srt rows t) + 1]
           \<and> map game_datetime recs = map col_game_datetime (team_schedule srt rows t)
           \<and> map where_played recs = map Home_Neutral (team_schedule srt rows t)"
proof -
  let ?s = "team_schedule srt rows t"
  have "\<exists>d. loop_body g M tc t ?s i = Inr d" if "i < length ?s" for i
    using that assms(2) by (auto simp: loop_body_fails_iff)
  with assms(1) obtain recs where recs: "schedulizer srt g M tc rows t = Inr recs"
    using schedulizer_total by blast
  have len: "length recs = length ?s" by (rule schedulizer_Inr(2) [OF recs])
  have each: "gameindex (recs ! i) = i + 1 \<and> game_datetime (recs ! i) = col_game_datetime (?s ! i)
                \<and> where_played (recs ! i) = Home_Neutral (?s ! i)" if "i < length recs" for i
    using loop_body_gameindex [OF schedulizer_Inr(3) [OF recs that]] by simp
  have "map gameindex recs = [1 ..< length ?s + 1]"
  proof (rule nth_equalityI)
    show "length (map gameindex recs) = length [1 ..< length ?s + 1]"
      using len by (simp del: upt_Suc)
  next
    fix i assume "i < length (map gameindex recs)"
    then show "map gameindex recs ! i = [1 ..< length ?s + 1] ! i"
      using each [of i] len by (simp del: upt_Suc)
  qed
  moreover have "map game_datetime recs = map col_game_datetime ?s"
  proof (rule nth_equalityI)
    show "length (map game_datetime recs) = length (map col_game_datetime ?s)" using len by simp
  next
    fix i assume "i < length (map game_datetime recs)"
    then show "map game_datetime recs ! i = map col_game_datetime ?s ! i"
      using each [of i] len by simp
  qed
  moreover have "map where_played recs = map Home_Neutral ?s"
  proof (rule nth_equalityI)
    show "length (map where_played recs) = length (map Home_Neutral ?s)" using len by simp
  next
    fix i assume "i < length (map where_played recs)"
    then show "map where_played recs ! i = map Home_Neutral ?s ! i"
      using each [of i] len by simp
  qed
  ultimately show ?thesis using recs len by blast
qed

theorem chain_one_record_per_game_witness:
  "team_schedule example_sort home_a_rows ''Home A'' \<noteq> []
   \<and> (\<exists>recs. schedulizer example_sort example_geodesic example_matrix Map.empty home_a_rows
                ''Home A'' = Inr recs
         \<and> length recs = 5 \<and> map gameindex recs = [1, 2, 3, 4, 5])"
proof -
  have len: "length (team_schedule example_sort home_a_rows ''Home A'') = 5"
    by (simp add: home_a_schedule)
  have idx: "[1 ..< 5 + 1] = [1, 2, 3, 4, 5 :: nat]"
    by (simp add: upt_rec)
  from chain_one_record_per_game [OF home_a_nonempty home_a_legs]
  obtain recs where r:
    "schedulizer example_sort example_geodesic example_matrix Map.empty home_a_rows ''Home A''
       = Inr recs
     \<and> length recs = 5 \<and> map gameindex recs = [1, 2, 3, 4, 5]
     \<and> map game_datetime recs
         = map col_game_datetime (team_schedule example_sort home_a_rows ''Home A'')
     \<and> map where_played recs
         = map Home_Neutral (team_schedule example_sort home_a_rows ''Home A'')"
    unfolding len idx ..
  show ?thesis
    by (intro conjI exI [of _ recs]) (simp_all only: r home_a_nonempty not_False_eq_True)
qed

text \<open>
  The claim C1 as written is false here: a non-empty schedule of two games, and no
  record is returned.
\<close>

theorem chain_fails_on_unresolved_leg:
  "team_schedule example_sort pacers_rows ''Indiana Pacers'' \<noteq> []
   \<and> schedulizer example_sort example_geodesic example_matrix spurs_coords pacers_rows
       ''Indiana Pacers''
       = Inl (ValueError ''Could not find coordinates for team: Indiana Pacers'')"
proof -
  have "team_schedule example_sort pacers_rows ''Indiana Pacers'' \<noteq> []"
    by (simp add: pacers_schedule, simp add: pacers_rows_def)
  with pacers_eval show ?thesis by simp
qed

section \<open>The first record and the later ones\<close>

text \<open>
  C2. In every chain the first record has \<^verbatim>\<open>gameindex\<close> 1 and its previous time,
  previous place, distance, hours and burden are all \<^verbatim>\<open>None\<close>; every later record has
  the previous time, previous place, distance and hours set, and its burden is
  \<^verbatim>\<open>None\<close> exactly when its hours are not strictly positive.
\<close>

theorem first_record_nulls:
  assumes "schedulizer srt g M tc rows t = Inr recs"
  shows "recs \<noteq> [] \<and> gameindex (recs ! 0) = 1
     \<and> previous_game_datetime (recs ! 0) = None \<and> previous_where_played (recs ! 0) = None
     \<and> travel_distance (recs ! 0) = None \<and> travel_hours (recs ! 0) = None
     \<and> game_mile_hours_burden (recs ! 0) = None
     \<and> (\<forall>i. 0 < i \<and> i < length recs \<longrightarrow>
          previous_game_datetime (recs ! i) \<noteq> None \<and> previous_where_played (recs ! i) \<noteq> None
          \<and> travel_distance (recs ! i) \<noteq> None
          \<and> (\<exists>h. travel_hours (recs ! i) = Some h
                \<and> (game_mile_hours_burden (recs ! i) = None \<longleftrightarrow> h \<le> 0)))"
proof -
  let ?s = "team_schedule srt rows t"
  have ne: "recs \<noteq> []"
    using schedulizer_Inr(1,2) [OF assms] by auto
  then have b0: "loop_body g M tc t ?s 0 = Inr (recs ! 0)"
    using schedulizer_Inr(3) [OF assms, of 0] by simp
  have later: "previous_game_datetime (recs ! i) \<noteq> None \<and> previous_where_played (recs ! i) \<noteq> None
          \<and> travel_distance (recs ! i) \<noteq> None
          \<and> (\<exists>h. travel_hours (recs ! i) = Some h
                \<and> (game_mile_hours_burden (recs ! i) = None \<longleftrightarrow> h \<le> 0))"
    if "0 < i" "i < length recs" for i
  proof -
    from loop_body_later_fields [OF that(1) schedulizer_Inr(3) [OF assms that(2)]]
    obtain td h where "previous_game_datetime (recs ! i) \<noteq> None"
      and "previous_where_played (recs ! i) \<noteq> None"
      and "travel_distance (recs ! i) \<noteq> None"
      and "travel_hours (recs ! i) = Some h"
      and "game_mile_hours_burden (recs ! i) = burden_of td h" by fastforce
    then show ?thesis by (simp add: burden_of_None)
  qed
  show ?thesis using ne loop_body_first_fields [OF b0] later by simp
qed

theorem first_record_nulls_witness:
  "schedulizer example_sort example_geodesic example_matrix Map.empty home_a_rows ''Home A''
     = Inr home_a_chain
   \<and> gameindex (home_a_chain ! 0) = 1
   \<and> previous_game_datetime (home_a_chain ! 0) = None
   \<and> previous_where_played (home_a_chain ! 0) = None
   \<and> travel_distance (home_a_chain ! 0) = None
   \<and> travel_hours (home_a_chain ! 0) = None
   \<and> game_mile_hours_burden (home_a_chain ! 0) = None
   \<and> travel_distance (home_a_chain ! 1) \<noteq> None
   \<and> game_mile_hours_burden (home_a_chain ! 1) \<noteq> None"
  using first_record_nulls [OF home_a_eval] home_a_eval
  by (simp add: home_a_chain_def)

section \<open>The guarded division\<close>

text \<open>
  C3. For every record after the first, the hours are the difference of the two
  instants over 3600, the burden is distance over hours when the hours are positive
  and \<^verbatim>\<open>None\<close> otherwise; two consecutive games at the same instant give hours 0 and
  burden \<^verbatim>\<open>None\<close>. The guard raises nothing: the only exception that leaves the loop
  body after the first game is the one of the distance computation.
\<close>

theorem burden_guard:
  assumes "schedulizer srt g M tc rows t = Inr recs" and "0 < i" and "i < length recs"
  shows "\<exists>d h. travel_distance (recs ! i) = Some d \<and> travel_hours (recs ! i) = Some h
      \<and> h = real_of_int (col_game_datetime (team_schedule srt rows t ! i)
                - col_game_datetime (team_schedule srt rows t ! (i - 1))) / 3600
      \<and> game_mile_hours_burden (recs ! i) = (if h > 0 then Some (d / h) else None)
      \<and> (col_game_datetime (team_schedule srt rows t ! i)
           = col_game_datetime (team_schedule srt rows t ! (i - 1))
         \<longrightarrow> h = 0 \<and> game_mile_hours_burden (recs ! i) = None)
      \<and> (\<forall>s j e. 0 < j \<and> loop_body g M tc t s j = Inl e
           \<longrightarrow> leg_distance g M tc (s ! (j - 1)) (s ! j) = Inl e)"
proof -
  let ?dt = "real_of_int (col_game_datetime (team_schedule srt rows t ! i)
                - col_game_datetime (team_schedule srt rows t ! (i - 1))) / 3600"
  from loop_body_later_fields [OF assms(2) schedulizer_Inr(3) [OF assms(1,3)]]
  obtain td where td: "travel_distance (recs ! i) = Some td"
    and th: "travel_hours (recs ! i) = Some ?dt"
    and b: "game_mile_hours_burden (recs ! i) = burden_of td ?dt" by blast
  have guard: "game_mile_hours_burden (recs ! i) = (if ?dt > 0 then Some (td / ?dt) else None)"
    using b by (simp only: burden_of_def)
  have tie: "col_game_datetime (team_schedule srt rows t ! i)
           = col_game_datetime (team_schedule srt rows t ! (i - 1))
         \<longrightarrow> ?dt = 0 \<and> game_mile_hours_burden (recs ! i) = None"
    using b by (simp add: burden_of_def)
  have "\<forall>s j e. 0 < j \<and> loop_body g M tc t s j = Inl e
           \<longrightarrow> leg_distance g M tc (s ! (j - 1)) (s ! j) = Inl e"
    using loop_body_Inl by blast
  with td th guard tie show ?thesis by blast
qed

theorem burden_guard_witness:
  "schedulizer example_sort example_geodesic example_matrix Map.empty tie_rows ''Home A''
     = Inr tie_chain
   \<and> col_game_datetime (team_schedule example_sort tie_rows ''Home A'' ! 1)
       = col_game_datetime (team_schedule example_sort tie_rows ''Home A'' ! 0)
   \<and> travel_distance (tie_chain ! 1) = Some 500
   \<and> travel_hours (tie_chain ! 1) = Some 0
   \<and> game_mile_hours_burden (tie_chain ! 1) = None
   \<and> travel_hours (home_a_chain ! 1) = Some 24
   \<and> game_mile_hours_burden (home_a_chain ! 1) = Some (500 / 24)"
proof -
  have tie: "col_game_datetime (team_schedule example_sort tie_rows ''Home A'' ! 1)
       = col_game_datetime (team_schedule example_sort tie_rows ''Home A'' ! 0)"
    by (simp add: tie_schedule, simp add: tie_rows_def)
  from burden_guard [OF tie_eval, of 1] tie
  have "travel_distance (tie_chain ! 1) = Some 500 \<and> travel_hours (tie_chain ! 1) = Some 0
     \<and> game_mile_hours_burden (tie_chain ! 1) = None"
    by (simp add: tie_chain_def)
  moreover from burden_guard [OF home_a_eval, of 1]
  have "travel_hours (home_a_chain ! 1) = Some 24
     \<and> game_mile_hours_burden (home_a_chain ! 1) = Some (500 / 24)"
    by (simp add: home_a_chain_def)
  ultimately show ?thesis using tie_eval tie by simp
qed

section \<open>Consecutive games at the same place\<close>

text \<open>
  C4, as amended. The claim as written fails when a game is at an international venue:
  the distance is then taken between coordinates, and the played-at name of such a
  game is still the home team's (the example that follows the witness). What holds:
  when the played-at names of two consecutive games are equal and neither game is at
  an international venue, the travel distance is exactly 0, whatever the matrix
  holds.
\<close>

theorem self_transition_zero:
  assumes "schedulizer srt g M tc rows t = Inr recs" and "0 < i" and "i < length recs"
    and "Home_Neutral (team_schedule srt rows t ! i)
           = Home_Neutral (team_schedule srt rows t ! (i - 1))"
    and "\<not> is_international (team_schedule srt rows t ! (i - 1))"
    and "\<not> is_international (team_schedule srt rows t ! i)"
  shows "previous_where_played (recs ! i) = Some (where_played (recs ! i))
     \<and> travel_distance (recs ! i) = Some 0"
  using loop_body_later_fields [OF assms(2) schedulizer_Inr(3) [OF assms(1,3)]]
    leg_distance_matrix [OF assms(5,6), of g M tc] assms(4)
  by (auto simp: matrix_distance_same)

theorem self_transition_zero_witness:
  "schedulizer example_sort example_geodesic example_matrix Map.empty home_a_rows ''Home A''
     = Inr home_a_chain
   \<and> example_matrix (normalize_team_name ''Home A'') (normalize_team_name ''Home A'')
       = Some (Num (1 / 10000))
   \<and> previous_where_played (home_a_chain ! 3) = Some (where_played (home_a_chain ! 3))
   \<and> travel_distance (home_a_chain ! 3) = Some 0"
proof -
  let ?s = "team_schedule example_sort home_a_rows ''Home A''"
  have same: "Home_Neutral (?s ! 3) = Home_Neutral (?s ! (3 - 1))"
    by (simp add: home_a_schedule, simp add: home_a_rows_def)
  have prev: "\<not> is_international (?s ! (3 - 1))"
    using home_a_not_international by (simp add: home_a_schedule)
  have curr: "\<not> is_international (?s ! 3)"
    using home_a_not_international by (simp add: home_a_schedule)
  have len: "3 < length home_a_chain" by (simp add: home_a_chain_def)
  have cell: "example_matrix (normalize_team_name ''Home A'') (normalize_team_name ''Home A'')
       = Some (Num (1 / 10000))"
    by (simp add: example_matrix_def normalize_team_name_def)
  from self_transition_zero [OF home_a_eval _ len same prev curr] home_a_eval cell
  show ?thesis by simp
qed

text \<open>
  The claim C4 as written is false here: both games are played at
  \<^verbatim>\<open>Washington Wizards\<close>, the first of them in Mexico City, and the distance is not 0.
\<close>

theorem self_transition_international_nonzero:
  "schedulizer example_sort example_geodesic example_matrix wizards_coords wizards_rows
     ''Washington Wizards'' = Inr wizards_chain
   \<and> where_played (wizards_chain ! 1) = ''Washington Wizards''
   \<and> previous_where_played (wizards_chain ! 1) = Some ''Washington Wizards''
   \<and> travel_distance (wizards_chain ! 1) \<noteq> Some 0"
  using wizards_eval by (simp add: wizards_chain_def)

section \<open>Legs that touch an international venue\<close>



section \<open>Locations that cannot be resolved\<close>




section \<open>The team-name normalizer\<close>

text \<open>
  C7. Both copies of the normalizer are total and idempotent, and every name other than
  the one spelling they rewrite, \<^verbatim>\<open>Sacramento Kings\<close>, is returned unchanged.
\<close>

theorem normalize_idempotent:
  "normalize_team_name (normalize_team_name x) = normalize_team_name x
   \<and> normalize_team_name_for_coords (normalize_team_name_for_coords x)
       = normalize_team_name_for_coords x
   \<and> (x \<noteq> ''Sacramento Kings'' \<longrightarrow>
        normalize_team_name x = x \<and> normalize_team_name_for_coords x = x)"
  by (simp add: normalize_team_name_def normalize_team_name_for_coords_def)

theorem normalize_idempotent_witness:
  "''Boston Celtics'' \<noteq> ''Sacramento Kings''
   \<and> normalize_team_name ''Boston Celtics'' = ''Boston Celtics''
   \<and> normalize_team_name_for_coords ''Boston Celtics'' = ''Boston Celtics''
   \<and> normalize_team_name (normalize_team_name ''Sacramento Kings'') = ''Sacremento Kings''"
  using normalize_idempotent [of "''Boston Celtics''"]
    normalize_idempotent [of "''Sacramento Kings''"]
  by (simp add: normalize_team_name_def)

section \<open>No games, and the batch over all teams\<close>



section \<open>Hours between consecutive games\<close>

text \<open>
  C10. With the schedule sorted ascending, every record after the first has its hours
  set and not negative; they are zero exactly when the two instants are equal, and
  that is the only case in which the burden of such a record is \<^verbatim>\<open>None\<close>.
\<close>

theorem travel_hours_nonneg:
  assumes "sort_values_ok srt"
    and "schedulizer srt g M tc rows t = Inr recs" and "0 < i" and "i < length recs"
  shows "\<exists>p h. previous_game_datetime (recs ! i) = Some p \<and> travel_hours (recs ! i) = Some h
     \<and> p \<le> game_datetime (recs ! i) \<and> 0 \<le> h
     \<and> (h \<le> 0 \<longleftrightarrow> game_datetime (recs ! i) = p)
     \<and> (game_mile_hours_burden (recs ! i) = None \<longleftrightarrow> game_datetime (recs ! i) = p)"
proof -
  let ?s = "team_schedule srt rows t"
  have len: "length recs = length ?s" by (rule schedulizer_Inr(2) [OF assms(2)])
  have "sorted (map col_game_datetime ?s)" by (rule sorted_schedule [OF assms(1)])
  then have "map col_game_datetime ?s ! (i - 1) \<le> map col_game_datetime ?s ! i"
    using assms(3,4) len by (intro sorted_nth_mono) auto
  then have le: "col_game_datetime (?s ! (i - 1)) \<le> col_game_datetime (?s ! i)"
    using assms(3,4) len by simp
  let ?h = "real_of_int (col_game_datetime (?s ! i) - col_game_datetime (?s ! (i - 1))) / 3600"
  from loop_body_later_fields [OF assms(3) schedulizer_Inr(3) [OF assms(2,4)]]
  obtain td where p: "previous_game_datetime (recs ! i) = Some (col_game_datetime (?s ! (i - 1)))"
    and h: "travel_hours (recs ! i) = Some ?h"
    and b: "game_mile_hours_burden (recs ! i) = burden_of td ?h"
    and d: "game_datetime (recs ! i) = col_game_datetime (?s ! i)" by blast
  have nonneg: "0 \<le> ?h" using le by simp
  have zero: "?h \<le> 0 \<longleftrightarrow> game_datetime (recs ! i) = col_game_datetime (?s ! (i - 1))"
    using le d by auto
  have null: "game_mile_hours_burden (recs ! i) = None
      \<longleftrightarrow> game_datetime (recs ! i) = col_game_datetime (?s ! (i - 1))"
    using le d b by (auto simp: burden_of_None)
  have before: "col_game_datetime (?s ! (i - 1)) \<le> game_datetime (recs ! i)"
    using le d by simp
  show ?thesis
    by (rule exI, rule exI, intro conjI) (rule p h before nonneg zero null)+
qed

theorem travel_hours_nonneg_witness:
  "sort_values_ok example_sort
   \<and> schedulizer example_sort example_geodesic example_matrix Map.empty tie_rows ''Home A''
       = Inr tie_chain
   \<and> previous_game_datetime (tie_chain ! 1) = Some (game_datetime (tie_chain ! 1))
   \<and> travel_hours (tie_chain ! 1) = Some 0
   \<and> game_mile_hours_burden (tie_chain ! 1) = None
   \<and> travel_hours (home_a_chain ! 1) = Some 24
   \<and> game_mile_hours_burden (home_a_chain ! 1) \<noteq> None"
  using travel_hours_nonneg [OF example_sort_ok tie_eval, of 1]
    travel_hours_nonneg [OF example_sort_ok home_a_eval, of 1] example_sort_ok tie_eval
  by (simp add: tie_chain_def home_a_chain_def)

end
